theory Spec2Isabelle
  imports Main
begin

section \<open>Strings and arrays as JavaScript has them\<close>

text \<open>
  \<^verbatim>\<open>s.split(c)\<close> for a one-character separator: the result is never empty, and the
  empty string splits into one empty part.
\<close>

fun split_on :: "char \<Rightarrow> string \<Rightarrow> string list" where
  "split_on c [] = [[]]"
| "split_on c (x # xs) =
     (if x = c then [] # split_on c xs
      else (case split_on c xs of [] \<Rightarrow> [[x]] | p # ps \<Rightarrow> (x # p) # ps))"

text \<open>\<^verbatim>\<open>parts.join(sep)\<close>: the empty array joins to the empty string.\<close>

fun join_with :: "string \<Rightarrow> string list \<Rightarrow> string" where
  "join_with sep [] = []"
| "join_with sep [p] = p"
| "join_with sep (p # q # ps) = p @ sep @ join_with sep (q # ps)"

text \<open>\<^verbatim>\<open>xs[i]\<close>: reading past the end gives \<^verbatim>\<open>undefined\<close>, here \<open>None\<close>.\<close>

definition at_index :: "'a list \<Rightarrow> nat \<Rightarrow> 'a option" where
  "at_index xs i = (if i < length xs then Some (xs ! i) else None)"

section \<open>Archive extraction: the common root path (utils/fs, extractZip)\<close>

text \<open>
  The \<^verbatim>\<open>for\<close> loop of the \<^verbatim>\<open>onEntry\<close> callback, from index \<open>i\<close> on. The variable
  \<^verbatim>\<open>commonRootPath\<close> is assigned only immediately before \<^verbatim>\<open>break\<close>, so
  \<^verbatim>\<open>commonRootPath.split("/")\<close> is the same array in every iteration.
\<close>

function scanEntry :: "string \<Rightarrow> string list \<Rightarrow> nat \<Rightarrow> string" where
  "scanEntry commonRootPath entryPathParts i =
     (if i < length entryPathParts then
        (if at_index (split_on CHR ''/'' commonRootPath) i \<noteq> Some (entryPathParts ! i)
         then join_with ''/'' (take i (split_on CHR ''/'' commonRootPath))
         else scanEntry commonRootPath entryPathParts (Suc i))
      else commonRootPath)"
  by pat_completeness auto
termination
  by (relation "measure (\<lambda>(r, ps, i). length ps - i)") auto

declare scanEntry.simps [simp del]

text \<open>
  One call of \<^verbatim>\<open>onEntry\<close>: the value of \<^verbatim>\<open>commonRootPath\<close> after the entry named
  \<open>fileName\<close>, from its value before. \<^verbatim>\<open>!commonRootPath\<close> holds of the empty string;
  \<^verbatim>\<open>entryPathParts[0]\<close> always exists.
\<close>

definition onEntry :: "string \<Rightarrow> string \<Rightarrow> string" where
  "onEntry commonRootPath fileName =
     (let entryPathParts = split_on CHR ''/'' fileName in
      if commonRootPath = [] then hd entryPathParts
      else scanEntry commonRootPath entryPathParts 0)"

section \<open>The platform: disk, network, subprocesses\<close>

text \<open>A JavaScript \<^verbatim>\<open>Error\<close> with its message; \<open>render\<close> is its string conversion.\<close>

datatype error = Error string

fun render :: "error \<Rightarrow> string" where
  "render (Error message) = ''Error: '' @ message"

text \<open>
  How an asynchronous call ends. \<open>Uncaught\<close>: an error that reaches no handler, either an
  \<^verbatim>\<open>error\<close> event on a stream without a listener or a rejection inside a callback whose
  promise nobody holds. Neither \<^verbatim>\<open>resolve\<close> nor \<^verbatim>\<open>reject\<close> is called on the promise of the
  call, and Node, by default, ends the process there: nothing that was to follow runs.
\<close>

datatype 'a promise = Resolved 'a | Rejected error | Uncaught error

text \<open>
  What \<^verbatim>\<open>https.get\<close> delivers for a URL: a response with its \<^verbatim>\<open>statusCode\<close> (may be
  undefined), \<^verbatim>\<open>statusMessage\<close>, \<^verbatim>\<open>headers.location\<close> (may be absent) and body, or an
  \<^verbatim>\<open>error\<close> event on the request.
\<close>

datatype response =
    Response "nat option" string "string option" string
  | RequestError error

text \<open>The calls that leave the program, in the order they are made.\<close>

datatype event =
    HttpsGet string
  | CreateWriteStream string
  | Extract string string
  | RenameSync string string
  | Exec string "string option"
  | ConsoleLog string
  | ConsoleError string

text \<open>
  The library and operating-system functions the code calls, as parameters of the model.
  \<open>'fs\<close> is the state of the disk.
  \<^item> \<open>pipeToFile\<close> is \<^verbatim>\<open>response.pipe(fs.createWriteStream(targetFile))\<close> run to its end: the
    \<^verbatim>\<open>error\<close> event of the stream if there is one (no \<^verbatim>\<open>finish\<close> event follows), and the
    disk it leaves;
  \<^item> \<open>extract_zip\<close> (\<^verbatim>\<open>extract\<close> of package extract-zip) gives the file names passed to \<^verbatim>\<open>onEntry\<close>, in
    order, the error it rejects with if any, and the disk it leaves;
  \<^item> \<open>exec\<close> gives the error passed to the callback if the command fails, and the disk
    the subprocess leaves; the second argument is the \<^verbatim>\<open>cwd\<close> option;
  \<^item> \<open>packageName\<close> is \<^verbatim>\<open>JSON.parse(text).name\<close> as a template literal prints it, or the
    error thrown;
  \<^item> \<open>getDownloadUrl\<close> is the function of utils/data (name, version, package type).
\<close>

record 'fs platform =
  existsSync :: "'fs \<Rightarrow> string \<Rightarrow> bool"
  pathJoin :: "string \<Rightarrow> string \<Rightarrow> string"
  httpsGet :: "string \<Rightarrow> response"
  pipeToFile :: "'fs \<Rightarrow> string \<Rightarrow> string \<Rightarrow> error option \<times> 'fs"
  extract_zip :: "'fs \<Rightarrow> string \<Rightarrow> string \<Rightarrow> string list \<times> error option \<times> 'fs"
  renameSync :: "'fs \<Rightarrow> string \<Rightarrow> string \<Rightarrow> error + 'fs"
  exec :: "'fs \<Rightarrow> string \<Rightarrow> string option \<Rightarrow> error option \<times> 'fs"
  readFileSync :: "'fs \<Rightarrow> string \<Rightarrow> error + string"
  packageName :: "string \<Rightarrow> error + string"
  getDownloadUrl :: "string \<Rightarrow> string option \<Rightarrow> string \<Rightarrow> string"

record 'fs world =
  disk :: 'fs
  events :: "event list"

definition emit :: "event \<Rightarrow> 'fs world \<Rightarrow> 'fs world" where
  "emit e w = w\<lparr>events := events w @ [e]\<rparr>"

text \<open>
  \<^verbatim>\<open>await p\<close> followed by the rest of an \<^verbatim>\<open>async\<close> function: a rejection leaves the
  function at once, and after an uncaught error the rest never runs. \<open>None\<close> is a
  computation that does not end.
\<close>

definition await ::
  "('a promise \<times> 'w) option \<Rightarrow> ('a \<Rightarrow> 'w \<Rightarrow> ('b promise \<times> 'w) option) \<Rightarrow> ('b promise \<times> 'w) option"
where
  "await p k =
     (case p of
        None \<Rightarrow> None
      | Some (Resolved v, w) \<Rightarrow> k v w
      | Some (Rejected e, w) \<Rightarrow> Some (Rejected e, w)
      | Some (Uncaught e, w) \<Rightarrow> Some (Uncaught e, w))"

section \<open>Transport (utils/fs, downloadFile)\<close>

text \<open>
  Every rejection of the promise passes through the \<^verbatim>\<open>catch\<close> that wraps it in a new
  \<^verbatim>\<open>Error\<close>. The redirect branch runs inside the \<^verbatim>\<open>async\<close> response callback, whose promise
  \<^verbatim>\<open>https.get\<close> drops: when the nested call rejects, \<^verbatim>\<open>resolve\<close> is never reached, nothing
  calls \<^verbatim>\<open>reject\<close>, and the rejection is unhandled. The promise resolves on the \<^verbatim>\<open>finish\<close>
  event of the write stream only; the stream has no \<^verbatim>\<open>error\<close> listener.
\<close>

partial_function (option) downloadFile ::
  "'fs platform \<Rightarrow> string \<Rightarrow> string \<Rightarrow> 'fs world \<Rightarrow> (unit promise \<times> 'fs world) option"
where
  "downloadFile P url targetFile w =
     (if existsSync P (disk w) targetFile then
        Some (Resolved (),
              emit (ConsoleLog (targetFile @ '' already exists. Skipping download.'')) w)
      else
        (case httpsGet P url of
           RequestError err \<Rightarrow>
             Some (Rejected (Error (''new Error '' @ render err)), emit (HttpsGet url) w)
         | Response statusCode statusMessage loc content \<Rightarrow>
             (let code = (case statusCode of None \<Rightarrow> 0 | Some c \<Rightarrow> c) in
              if code \<ge> 400 then
                Some (Rejected (Error (''new Error '' @ render (Error statusMessage))),
                      emit (HttpsGet url) w)
              else if code > 300 \<and> code < 400 \<and> loc \<noteq> None \<and> loc \<noteq> Some [] then
                Option.bind (downloadFile P (the loc) targetFile (emit (HttpsGet url) w))
                  (\<lambda>(r, w'). Some (case r of Resolved u \<Rightarrow> Resolved ()
                                        | Rejected err \<Rightarrow> Uncaught err
                                        | Uncaught err \<Rightarrow> Uncaught err, w'))
              else
                (case pipeToFile P (disk w) targetFile content of
                   (None, d) \<Rightarrow>
                     Some (Resolved (),
                           (emit (CreateWriteStream targetFile) (emit (HttpsGet url) w))
                             \<lparr>disk := d\<rparr>)
                 | (Some err, d) \<Rightarrow>
                     Some (Uncaught err,
                           (emit (CreateWriteStream targetFile) (emit (HttpsGet url) w))
                             \<lparr>disk := d\<rparr>)))))"

declare downloadFile.simps [code]

section \<open>Archive extractor and staging (utils/fs)\<close>

text \<open>
  \<^verbatim>\<open>extract\<close> resolves with no value, so the \<^verbatim>\<open>then\<close> handler prints
  \<^verbatim>\<open>undefined\<close>; the function returns the variable the callback has updated.
\<close>

definition extractZip ::
  "'fs platform \<Rightarrow> string \<Rightarrow> string \<Rightarrow> 'fs world \<Rightarrow> (string promise \<times> 'fs world) option"
where
  "extractZip P zipFilePath targetDirectory w =
     (case extract_zip P (disk w) zipFilePath targetDirectory of
        (fileNames, failure, d) \<Rightarrow>
          (let commonRootPath = foldl onEntry [] fileNames;
               w1 = (emit (Extract zipFilePath targetDirectory) w)\<lparr>disk := d\<rparr> in
           case failure of
             Some err \<Rightarrow>
               Some (Rejected (Error (''Error extracting '' @ zipFilePath @ '' zip: '' @ render err)), w1)
           | None \<Rightarrow>
               Some (Resolved commonRootPath, emit (ConsoleLog ''Extracted to undefined'') w1)))"

text \<open>\<^verbatim>\<open>fs.renameSync\<close> throws; \<open>Rejected\<close> is the exception.\<close>

definition renameFolder ::
  "'fs platform \<Rightarrow> string \<Rightarrow> string \<Rightarrow> 'fs world \<Rightarrow> (unit promise \<times> 'fs world) option"
where
  "renameFolder P oldPath newPath w =
     (case renameSync P (disk w) oldPath newPath of
        Inl err \<Rightarrow> Some (Rejected err, emit (RenameSync oldPath newPath) w)
      | Inr d \<Rightarrow> Some (Resolved (), (emit (RenameSync oldPath newPath) w)\<lparr>disk := d\<rparr>))"

section \<open>Process runner (utils/commands)\<close>

definition installNpmPackages ::
  "'fs platform \<Rightarrow> string \<Rightarrow> 'fs world \<Rightarrow> (unit promise \<times> 'fs world) option"
where
  "installNpmPackages P packageDirectory w =
     (let packageJsonPath = pathJoin P packageDirectory ''package.json'' in
      if \<not> existsSync P (disk w) packageJsonPath then Some (Resolved (), w)
      else
        (case readFileSync P (disk w) packageJsonPath of
           Inl err \<Rightarrow> Some (Rejected err, w)
         | Inr text \<Rightarrow>
             (case packageName P text of
                Inl err \<Rightarrow> Some (Rejected err, w)
              | Inr pkgName \<Rightarrow>
                  (let w1 = emit (ConsoleLog (''Installing and building '' @ pkgName
                                               @ '' from local directory...'')) w;
                       packageLockPath = pathJoin P packageDirectory ''package-lock.json'';
                       command = (if existsSync P (disk w1) packageLockPath
                                  then ''npm ci && npm run build''
                                  else ''npm i && npm run build'');
                       w2 = emit (Exec command (Some packageDirectory)) w1 in
                   case exec P (disk w1) command (Some packageDirectory) of
                     (Some err, d) \<Rightarrow> Some (Rejected err, w2\<lparr>disk := d\<rparr>)
                   | (None, d) \<Rightarrow>
                       Some (Resolved (),
                             emit (ConsoleLog (pkgName @ '' dependencies installed and built.''))
                               (w2\<lparr>disk := d\<rparr>))))))"

text \<open>
  Both commands are started with no callback: their exit status reaches nobody. The
  disk is the one they leave, the first command first.
\<close>

definition installComposer :: "'fs platform \<Rightarrow> string \<Rightarrow> 'fs world \<Rightarrow> 'fs world" where
  "installComposer P repoPath w =
     (let w1 = emit (ConsoleLog ''Found composer.json'') w;
          w2 = (emit (Exec ''composer install --no-dev'' (Some repoPath)) w1)
                 \<lparr>disk := snd (exec P (disk w1) ''composer install --no-dev'' (Some repoPath))\<rparr>
      in (emit (Exec ''composer dumpautoload -o'' (Some repoPath)) w2)
           \<lparr>disk := snd (exec P (disk w2) ''composer dumpautoload -o'' (Some repoPath))\<rparr>)"

section \<open>The package installer (Package.ts)\<close>

record WPMMconfigPkg =
  name :: string
  version :: "string option"
  source :: "string option"

record WPMMpaths =
  tempDir :: string
  pluginsFolder :: string
  themeFolder :: string
  baseFolder :: string

record Package =
  pkgInfo :: WPMMconfigPkg
  packageType :: string
  this_tempDir :: string
  this_destFolder :: string

definition getDestFolder :: "WPMMpaths \<Rightarrow> string \<Rightarrow> string" where
  "getDestFolder paths pkgType =
     (if pkgType = ''plugin'' then pluginsFolder paths
      else if pkgType = ''theme'' then themeFolder paths
      else baseFolder paths)"

text \<open>The constructor.\<close>

definition new_Package :: "WPMMconfigPkg \<Rightarrow> string \<Rightarrow> WPMMpaths \<Rightarrow> Package" where
  "new_Package pkgConfig pkgType paths =
     \<lparr>pkgInfo = pkgConfig, packageType = pkgType, this_tempDir = tempDir paths,
      this_destFolder = getDestFolder paths pkgType\<rparr>"

definition execDownload ::
  "'fs platform \<Rightarrow> Package \<Rightarrow> string \<Rightarrow> string \<Rightarrow> 'fs world \<Rightarrow> (string promise \<times> 'fs world) option"
where
  "execDownload P this filename downloadUrl w =
     (let zipFilePath = pathJoin P (this_tempDir this) filename;
          zipFileName = last (split_on CHR ''/'' downloadUrl);
          w1 = emit (ConsoleLog (''Downloading '' @ zipFileName @ '' to '' @ zipFilePath
                                  @ '' (source '' @ downloadUrl @ '')'')) w
      in await (downloadFile P downloadUrl zipFilePath w1) (\<lambda>_ w2.
           extractZip P zipFilePath (this_tempDir this)
             (emit (ConsoleLog (zipFileName @ '' download completed!'')) w2)))"

definition cloneRepo ::
  "'fs platform \<Rightarrow> Package \<Rightarrow> string \<Rightarrow> 'fs world \<Rightarrow> (string promise \<times> 'fs world) option"
where
  "cloneRepo P this packageUrl w =
     (let command = ''git clone '' @ packageUrl @ '' '' @ this_destFolder this @ ''/''
                      @ name (pkgInfo this);
          w1 = emit (Exec command None) w in
      case exec P (disk w) command None of
        (Some err, d) \<Rightarrow>
          Some (Rejected err,
                emit (ConsoleLog (''Failed to clone repository: '' @ render err)) (w1\<lparr>disk := d\<rparr>))
      | (None, d) \<Rightarrow> Some (Resolved (name (pkgInfo this)), w1\<lparr>disk := d\<rparr>))"

text \<open>The body of the \<^verbatim>\<open>try\<close> block of \<^verbatim>\<open>downloadPackage\<close>.\<close>

definition downloadPackage_try ::
  "'fs platform \<Rightarrow> Package \<Rightarrow> string \<Rightarrow> 'fs world \<Rightarrow> (unit promise \<times> 'fs world) option"
where
  "downloadPackage_try P this packageUrl w =
     (let pkgFolder = pathJoin P (this_destFolder this) (name (pkgInfo this)) in
      if existsSync P (disk w) pkgFolder then
        Some (Resolved (),
              emit (ConsoleLog (''destination folder '' @ pkgFolder
                                 @ '' already exists. Skipping download.'')) w)
      else
        await
          (if last (split_on CHR ''.'' packageUrl) = ''git'' then
             await (cloneRepo P this packageUrl w) (\<lambda>_ w1. Some (Resolved (), w1))
           else
             await (execDownload P this (name (pkgInfo this) @ ''.zip'') packageUrl w)
               (\<lambda>extractedPath w1.
                  renameFolder P (pathJoin P (this_tempDir this) extractedPath) pkgFolder w1))
          (\<lambda>_ w1.
             (let w2 = emit (ConsoleLog (name (pkgInfo this) @ '' installed successfully in ''
                                          @ packageUrl)) w1 in
              if packageUrl \<noteq> [] then
                await (installNpmPackages P pkgFolder w2)
                  (\<lambda>_ w3. Some (Resolved (), installComposer P pkgFolder w3))
              else Some (Resolved (), w2))))"

text \<open>
  The \<^verbatim>\<open>catch\<close> clause prints the error and lets the function return normally. It only
  sees rejections.
\<close>

definition downloadPackage ::
  "'fs platform \<Rightarrow> Package \<Rightarrow> string \<Rightarrow> 'fs world \<Rightarrow> (unit promise \<times> 'fs world) option"
where
  "downloadPackage P this packageUrl w =
     (case downloadPackage_try P this packageUrl w of
        Some (Rejected err, w1) \<Rightarrow>
          Some (Resolved (),
                emit (ConsoleError (''Error downloading package '' @ name (pkgInfo this) @ '': ''
                                     @ render err)) w1)
      | r \<Rightarrow> r)"

text \<open>\<^verbatim>\<open>source || getDownloadUrl(...)\<close>: an absent or empty source is falsy.\<close>

definition install ::
  "'fs platform \<Rightarrow> Package \<Rightarrow> 'fs world \<Rightarrow> (unit promise \<times> 'fs world) option"
where
  "install P this w =
     (let packageUrl =
            (if source (pkgInfo this) \<noteq> None \<and> source (pkgInfo this) \<noteq> Some []
             then the (source (pkgInfo this))
             else getDownloadUrl P (name (pkgInfo this)) (version (pkgInfo this))
                    (packageType this))
      in await (downloadPackage P this packageUrl w) (\<lambda>_ w1.
           Some (Resolved (),
                 emit (ConsoleLog (packageType this @ '' '' @ name (pkgInfo this)
                                    @ '' installed successfully.'')) w1)))"

section \<open>A simulated platform for worked examples\<close>

text \<open>
  A small concrete platform on which the model runs. The disk is an association list
  from paths to \<open>None\<close> (a directory) or \<open>Some text\<close> (a file); the newest binding of a
  path is the first. A file can be written only into a directory that exists. The web, the archives (the entries packed in a file of a given
  text), the manifests (the \<^verbatim>\<open>name\<close> in a JSON text) and the commands that exit non-zero
  are lookup tables.
\<close>

type_synonym sim_disk = "(string \<times> string option) list"

text \<open>The directory of a path: all its segments but the last.\<close>

definition parent :: "string \<Rightarrow> string" where
  "parent p = join_with ''/'' (butlast (split_on CHR ''/'' p))"

text \<open>Unpacking one entry creates its parent directories; a name ending in a slash is a directory.\<close>

definition unpack :: "string \<Rightarrow> sim_disk \<Rightarrow> string \<times> string \<Rightarrow> sim_disk" where
  "unpack dir d entry =
     (let parts = split_on CHR ''/'' (fst entry) in
      (if last parts = [] then [] else [(dir @ ''/'' @ fst entry, Some (snd entry))])
      @ map (\<lambda>k. (dir @ ''/'' @ join_with ''/'' (take k parts), None)) (rev [1..<length parts])
      @ d)"

definition sim ::
  "(string \<times> response) list \<Rightarrow> (string \<times> (string \<times> string) list) list \<Rightarrow>
   (string \<times> string) list \<Rightarrow> string list \<Rightarrow> sim_disk platform"
where
  "sim web archives manifests failing =
     \<lparr>existsSync = (\<lambda>d p. map_of d p \<noteq> None),
      pathJoin = (\<lambda>a b. if b = [] then a else a @ ''/'' @ b),
      httpsGet = (\<lambda>url. case map_of web url of
                     Some r \<Rightarrow> r
                   | None \<Rightarrow> RequestError (Error ''getaddrinfo ENOTFOUND'')),
      pipeToFile = (\<lambda>d p text.
         if map_of d (parent p) = Some None then (None, (p, Some text) # d)
         else (Some (Error ''ENOENT: no such file or directory, open''), d)),
      extract_zip = (\<lambda>d zip dir.
         case map_of d zip of
           Some (Some text) \<Rightarrow>
             (case map_of archives text of
                Some entries \<Rightarrow> (map fst entries, None, foldl (unpack dir) d entries)
              | None \<Rightarrow> ([], Some (Error ''end of central directory record signature not found''), d))
         | _ \<Rightarrow> ([], Some (Error ''ENOENT: no such file or directory, open''), d)),
      renameSync = (\<lambda>d old new.
         if map_of d old = None then Inl (Error ''ENOENT: no such file or directory, rename'')
         else Inr (map (\<lambda>(p, x). (if p = old \<or> take (Suc (length old)) p = old @ ''/''
                                    then new @ drop (length old) p else p, x)) d)),
      exec = (\<lambda>d command cwd.
         if command \<in> set failing then (Some (Error (''Command failed: '' @ command)), d)
         else (None, if take 10 command = ''git clone ''
                     then (last (split_on CHR '' '' command), None) # d else d)),
      readFileSync = (\<lambda>d p.
         case map_of d p of
           Some (Some text) \<Rightarrow> Inr text
         | Some None \<Rightarrow> Inl (Error ''EISDIR: illegal operation on a directory, read'')
         | None \<Rightarrow> Inl (Error ''ENOENT: no such file or directory, open'')),
      packageName = (\<lambda>text. case map_of manifests text of
                        Some n \<Rightarrow> Inr n
                      | None \<Rightarrow> Inl (Error ''Unexpected token in JSON'')),
      getDownloadUrl = (\<lambda>n v t. ''https://downloads.wordpress.org/'' @ t @ ''/'' @ n
                          @ (case v of Some x \<Rightarrow> ''.'' @ x | None \<Rightarrow> []) @ ''.zip'')\<rparr>"

text \<open>The plugin \<open>x\<close> with the explicit source \<open>u\<close>, and a disk holding only the folders.\<close>

definition plugin_x :: Package where
  "plugin_x =
     new_Package \<lparr>name = ''x'', version = None, source = Some ''u''\<rparr> ''plugin''
       \<lparr>tempDir = ''/t'', pluginsFolder = ''/p'', themeFolder = ''/th'', baseFolder = ''/b''\<rparr>"

definition fresh :: "sim_disk world" where
  "fresh = \<lparr>disk = [(''/t'', None), (''/p'', None)], events = []\<rparr>"

text \<open>The same disk once the archive of text \<open>Z\<close> has been downloaded.\<close>

definition downloaded :: "sim_disk world" where
  "downloaded = \<lparr>disk = [(''/t/x.zip'', Some ''Z''), (''/t'', None), (''/p'', None)], events = []\<rparr>"

text \<open>\<open>u\<close> serves an archive whose entries all lie under \<open>a/\<close>, with no manifest.\<close>

definition sim_single_root :: "sim_disk platform" where
  "sim_single_root =
     sim [(''u'', Response (Some 200) ''OK'' None ''Z'')]
         [(''Z'', [(''a/f'', ''1''), (''a/g/h'', ''2'')])] [] []"

text \<open>An archive with the three entries \<open>a/x\<close>, \<open>b/y\<close>, \<open>c/z\<close>: no shared top segment.\<close>

definition sim_three_roots :: "sim_disk platform" where
  "sim_three_roots =
     sim [(''u'', Response (Some 200) ''OK'' None ''Z'')]
         [(''Z'', [(''a/x'', ''1''), (''b/y'', ''2''), (''c/z'', ''3'')])] [] []"

text \<open>\<open>u\<close> answers 404.\<close>

definition sim_not_found :: "sim_disk platform" where
  "sim_not_found = sim [(''u'', Response (Some 404) ''Not Found'' None [])] [] [] []"

text \<open>\<open>u\<close> answers 300 with a \<^verbatim>\<open>Location\<close> header and a body of its own.\<close>

definition sim_status_300 :: "sim_disk platform" where
  "sim_status_300 =
     sim [(''u'', Response (Some 300) ''Multiple Choices'' (Some ''v'') ''B''),
          (''v'', Response (Some 200) ''OK'' None ''Z'')] [] [] []"

text \<open>\<open>u\<close> answers 301 with an empty \<^verbatim>\<open>Location\<close> header and a body of its own.\<close>

definition sim_empty_location :: "sim_disk platform" where
  "sim_empty_location =
     sim [(''u'', Response (Some 301) ''Moved Permanently'' (Some []) ''B'')] [] [] []"

text \<open>\<open>u\<close> answers 301 and points to \<open>v\<close>, which serves the archive.\<close>

definition sim_moved :: "sim_disk platform" where
  "sim_moved =
     sim [(''u'', Response (Some 301) ''Moved Permanently'' (Some ''v'') []),
          (''v'', Response (Some 200) ''OK'' None ''Z'')] [] [] []"

text \<open>\<open>u\<close> answers 301 and points to \<open>v\<close>, which answers 404.\<close>

definition sim_moved_to_nothing :: "sim_disk platform" where
  "sim_moved_to_nothing =
     sim [(''u'', Response (Some 301) ''Moved Permanently'' (Some ''v'') []),
          (''v'', Response (Some 404) ''Not Found'' None [])] [] [] []"

text \<open>Eleven redirects in a row, from \<open>u\<close> to \<open>u11\<close>, which serves the archive.\<close>

definition sim_eleven_redirects :: "sim_disk platform" where
  "sim_eleven_redirects =
     sim [(''u'', Response (Some 302) ''Found'' (Some ''u1'') []),
          (''u1'', Response (Some 302) ''Found'' (Some ''u2'') []),
          (''u2'', Response (Some 302) ''Found'' (Some ''u3'') []),
          (''u3'', Response (Some 302) ''Found'' (Some ''u4'') []),
          (''u4'', Response (Some 302) ''Found'' (Some ''u5'') []),
          (''u5'', Response (Some 302) ''Found'' (Some ''u6'') []),
          (''u6'', Response (Some 302) ''Found'' (Some ''u7'') []),
          (''u7'', Response (Some 302) ''Found'' (Some ''u8'') []),
          (''u8'', Response (Some 302) ''Found'' (Some ''u9'') []),
          (''u9'', Response (Some 302) ''Found'' (Some ''u10'') []),
          (''u10'', Response (Some 302) ''Found'' (Some ''u11'') []),
          (''u11'', Response (Some 200) ''OK'' None ''Z'')] [] [] []"

text \<open>\<open>u\<close> serves an archive with the two entries \<open>a/f\<close> and \<open>b/h\<close>: no shared top segment.\<close>

definition sim_two_roots :: "sim_disk platform" where
  "sim_two_roots =
     sim [(''u'', Response (Some 200) ''OK'' None ''Z'')]
         [(''Z'', [(''a/f'', ''1''), (''b/h'', ''2'')])] [] []"

text \<open>
  \<open>u\<close> serves an archive with a \<^verbatim>\<open>package.json\<close> under its single root; the build command
  exits non-zero.
\<close>

definition sim_build_fails :: "sim_disk platform" where
  "sim_build_fails =
     sim [(''u'', Response (Some 200) ''OK'' None ''Z'')]
         [(''Z'', [(''a/package.json'', ''J''), (''a/g/h'', ''2'')])]
         [(''J'', ''n'')] [''npm i && npm run build'']"

text \<open>
  \<open>u\<close> serves an archive with a \<^verbatim>\<open>composer.json\<close> under its single root; both composer
  commands exit non-zero.
\<close>

definition sim_composer_fails :: "sim_disk platform" where
  "sim_composer_fails =
     sim [(''u'', Response (Some 200) ''OK'' None ''Z'')]
         [(''Z'', [(''a/composer.json'', ''C''), (''a/f'', ''1'')])]
         [] [''composer install --no-dev'', ''composer dumpautoload -o'']"

text \<open>The world after \<open>plugin_x\<close> has been installed from \<open>sim_single_root\<close> on the fresh disk.\<close>

definition installed :: "sim_disk world" where
  "installed =
     \<lparr>disk = [(''/p/x/g/h'', Some ''2''), (''/p/x/g'', None), (''/p/x'', None),
              (''/p/x/f'', Some ''1''), (''/p/x'', None),
              (''/t/x.zip'', Some ''Z''), (''/t'', None), (''/p'', None)],
      events = [ConsoleLog ''Downloading u to /t/x.zip (source u)'',
                HttpsGet ''u'', CreateWriteStream ''/t/x.zip'',
                ConsoleLog ''u download completed!'', Extract ''/t/x.zip'' ''/t'',
                ConsoleLog ''Extracted to undefined'',
                RenameSync ''/t/a'' ''/p/x'',
                ConsoleLog ''x installed successfully in u'',
                ConsoleLog ''Found composer.json'',
                Exec ''composer install --no-dev'' (Some ''/p/x''),
                Exec ''composer dumpautoload -o'' (Some ''/p/x''),
                ConsoleLog ''plugin x installed successfully.'']\<rparr>"

text \<open>
  The worlds of the installation from \<open>sim_build_fails\<close>: after download and extraction,
  and after the extracted root has been renamed into the plugins folder.
\<close>

definition unpacked_with_manifest :: "sim_disk world" where
  "unpacked_with_manifest =
     \<lparr>disk = [(''/t/a/g/h'', Some ''2''), (''/t/a/g'', None), (''/t/a'', None),
              (''/t/a/package.json'', Some ''J''), (''/t/a'', None),
              (''/t/x.zip'', Some ''Z''), (''/t'', None), (''/p'', None)],
      events = [ConsoleLog ''Downloading u to /t/x.zip (source u)'',
                HttpsGet ''u'', CreateWriteStream ''/t/x.zip'',
                ConsoleLog ''u download completed!'', Extract ''/t/x.zip'' ''/t'',
                ConsoleLog ''Extracted to undefined'']\<rparr>"

definition placed_with_manifest :: "sim_disk world" where
  "placed_with_manifest =
     \<lparr>disk = [(''/p/x/g/h'', Some ''2''), (''/p/x/g'', None), (''/p/x'', None),
              (''/p/x/package.json'', Some ''J''), (''/p/x'', None),
              (''/t/x.zip'', Some ''Z''), (''/t'', None), (''/p'', None)],
      events = [ConsoleLog ''Downloading u to /t/x.zip (source u)'',
                HttpsGet ''u'', CreateWriteStream ''/t/x.zip'',
                ConsoleLog ''u download completed!'', Extract ''/t/x.zip'' ''/t'',
                ConsoleLog ''Extracted to undefined'',
                RenameSync ''/t/a'' ''/p/x'']\<rparr>"

lemmas model_defs =
  install_def downloadPackage_def downloadPackage_try_def execDownload_def cloneRepo_def
  extractZip_def renameFolder_def installNpmPackages_def installComposer_def await_def emit_def
  new_Package_def getDestFolder_def onEntry_def scanEntry.simps at_index_def downloadFile.simps
  Let_def

lemmas sim_defs = sim_def parent_def unpack_def plugin_x_def fresh_def downloaded_def

lemma disk_emit [simp]: "disk (emit e w) = disk w"
  by (simp add: emit_def)

lemma events_emit [simp]: "events (emit e w) = events w @ [e]"
  by (simp add: emit_def)

section \<open>The common root path\<close>

lemma split_on_not_Nil: "split_on c s \<noteq> []"
  by (induction s) (auto split: list.splits)

lemma split_on_parts_no_sep: "p \<in> set (split_on c s) \<Longrightarrow> c \<notin> set p"
  by (induction s arbitrary: p) (auto split: list.splits if_splits)

lemma split_on_no_sep: "c \<notin> set s \<Longrightarrow> split_on c s = [s]"
  by (induction s) auto

lemma split_on_prefix: "c \<notin> set r \<Longrightarrow> split_on c (r @ c # s) = r # split_on c s"
  by (induction r) auto

lemma hd_split_on_no_sep: "c \<notin> set (hd (split_on c s))"
  using split_on_parts_no_sep [of "hd (split_on c s)" c s] split_on_not_Nil [of c s]
  by simp

text \<open>
  A candidate of one segment splits into itself alone, so the loop can only keep it
  (\<open>slice(0, i)\<close> with \<open>i \<ge> 1\<close>) or empty it (\<open>slice(0, 0)\<close>).
\<close>

lemma scanEntry_no_sep:
  assumes "CHR ''/'' \<notin> set root"
  shows "scanEntry root parts i = [] \<or> scanEntry root parts i = root"
  using assms
proof (induction root parts i rule: scanEntry.induct)
  case (1 root parts i)
  then show ?case
    by (subst (1 2) scanEntry.simps) (cases i; simp add: split_on_no_sep)
qed

lemma onEntry_no_sep:
  assumes "CHR ''/'' \<notin> set root"
  shows "CHR ''/'' \<notin> set (onEntry root fileName)"
proof (cases "root = []")
  case True
  then show ?thesis by (simp add: onEntry_def hd_split_on_no_sep)
next
  case False
  with scanEntry_no_sep [OF assms, of "split_on CHR ''/'' fileName" 0] assms
  show ?thesis by (auto simp: onEntry_def)
qed

lemma foldl_onEntry_no_sep:
  "CHR ''/'' \<notin> set root \<Longrightarrow> CHR ''/'' \<notin> set (foldl onEntry root fileNames)"
  by (induction fileNames arbitrary: root) (simp_all add: onEntry_no_sep)

text \<open>
  C10. Whatever the archive, the common root path that \<open>extractZip\<close> returns holds no
  path separator: it is the empty string or a single path segment.
\<close>

theorem extractZip_root_one_segment:
  "extractZip P zipFilePath targetDirectory w = Some (Resolved root, w') \<Longrightarrow>
   CHR ''/'' \<notin> set root"
  using foldl_onEntry_no_sep [of "[]"]
  by (auto simp: extractZip_def Let_def split: prod.splits option.splits)

theorem extractZip_root_one_segment_witness:
  "(\<exists>w'. extractZip sim_single_root ''/t/x.zip'' ''/t'' downloaded = Some (Resolved ''a'', w'))
   \<and> CHR ''/'' \<notin> set ''a''"
proof -
  obtain w' where h: "extractZip sim_single_root ''/t/x.zip'' ''/t'' downloaded = Some (Resolved ''a'', w')"
    by (simp add: sim_single_root_def sim_defs model_defs)
  from extractZip_root_one_segment [OF h] h show ?thesis by blast
qed

text \<open>
  When every file name starts with the same segment \<open>r\<close> followed by a slash, and there is
  at least one, the result is \<open>r\<close>.
\<close>

lemma onEntry_same_root:
  assumes "CHR ''/'' \<notin> set r" "r \<noteq> []"
  shows "onEntry [] (r @ CHR ''/'' # s) = r" "onEntry r (r @ CHR ''/'' # s) = r"
proof -
  show "onEntry [] (r @ CHR ''/'' # s) = r"
    using assms by (simp add: onEntry_def split_on_prefix)
  obtain p ps where ps: "split_on CHR ''/'' s = p # ps"
    using split_on_not_Nil [of "CHR ''/''" s] by (cases "split_on CHR ''/'' s") auto
  have "scanEntry r (r # p # ps) 0 = scanEntry r (r # p # ps) (Suc 0)"
    using assms by (subst scanEntry.simps) (simp add: split_on_no_sep at_index_def)
  also have "\<dots> = r"
    using assms by (subst scanEntry.simps) (simp add: split_on_no_sep at_index_def)
  finally show "onEntry r (r @ CHR ''/'' # s) = r"
    using assms ps by (simp add: onEntry_def split_on_prefix)
qed

lemma foldl_onEntry_single_root:
  assumes "CHR ''/'' \<notin> set r" "r \<noteq> []"
    and "\<forall>n \<in> set fileNames. take (Suc (length r)) n = r @ ''/''"
  shows "foldl onEntry r fileNames = r"
  using assms(3)
proof (induction fileNames)
  case Nil
  then show ?case by simp
next
  case (Cons n ns)
  then have "take (Suc (length r)) n = r @ ''/''" by simp
  then have "n = r @ CHR ''/'' # drop (Suc (length r)) n"
    by (metis append_take_drop_id append.assoc append_Cons append_Nil)
  then have "onEntry r n = r"
    using onEntry_same_root(2) [OF assms(1,2)] by metis
  with Cons show ?case by simp
qed

lemma common_root_of_single_root_archive:
  assumes "CHR ''/'' \<notin> set r" "r \<noteq> []" "fileNames \<noteq> []"
    and "\<forall>n \<in> set fileNames. take (Suc (length r)) n = r @ ''/''"
  shows "foldl onEntry [] fileNames = r"
proof (cases fileNames)
  case Nil
  with assms show ?thesis by simp
next
  case (Cons n ns)
  with assms(4) have "take (Suc (length r)) n = r @ ''/''" by simp
  then have "n = r @ CHR ''/'' # drop (Suc (length r)) n"
    by (metis append_take_drop_id append.assoc append_Cons append_Nil)
  then have "onEntry [] n = r"
    using onEntry_same_root(1) [OF assms(1,2)] by metis
  moreover have "foldl onEntry r ns = r"
    using foldl_onEntry_single_root [OF assms(1,2), of ns] assms(4) Cons by simp
  ultimately show ?thesis using Cons by simp
qed

text \<open>Two entries with different top segments: the candidate is emptied.\<close>

lemma common_root_two_top_segments: "foldl onEntry [] [''a/x'', ''b/y''] = []"
  by (simp add: onEntry_def scanEntry.simps at_index_def)

text \<open>Three entries with three top segments: the third one re-initialises the candidate.\<close>

lemma onEntry_three_top_segments:
  "foldl onEntry [] [''a/x'', ''b/y''] = [] \<and> onEntry [] ''c/z'' = ''c''"
  by (simp add: onEntry_def scanEntry.simps at_index_def)

text \<open>
  C2. The common root path of an archive whose entries share no top segment should be
  the empty string. With the three entries \<open>a/x\<close>, \<open>b/y\<close>, \<open>c/z\<close> the candidate is emptied
  at the second entry, the third entry then takes the branch meant for the first one, and
  \<open>extractZip\<close> returns \<open>c\<close>.
\<close>

theorem extractZip_three_top_segments:
  "extractZip sim_three_roots ''/t/x.zip'' ''/t'' downloaded =
     Some (Resolved ''c'',
           \<lparr>disk = [(''/t/c/z'', Some ''3''), (''/t/c'', None),
                    (''/t/b/y'', Some ''2''), (''/t/b'', None),
                    (''/t/a/x'', Some ''1''), (''/t/a'', None),
                    (''/t/x.zip'', Some ''Z''), (''/t'', None), (''/p'', None)],
            events = [Extract ''/t/x.zip'' ''/t'', ConsoleLog ''Extracted to undefined'']\<rparr>)"
  by (simp add: sim_three_roots_def sim_defs model_defs)

section \<open>Transport: redirects\<close>

text \<open>
  C3 as stated fails twice, at the two ends of the test
  \<^verbatim>\<open>code > 300 && code < 400 && !!response.headers.location\<close>. A response with status 300
  and a \<^verbatim>\<open>Location\<close> header is not followed: its own body is written to the target and
  \<open>v\<close> is never requested. A 301 response whose \<^verbatim>\<open>Location\<close> header is the empty string is
  not followed either.
\<close>

theorem downloadFile_location_not_followed:
  "downloadFile sim_status_300 ''u'' ''/t/x.zip'' fresh =
     Some (Resolved (),
           \<lparr>disk = [(''/t/x.zip'', Some ''B''), (''/t'', None), (''/p'', None)],
            events = [HttpsGet ''u'', CreateWriteStream ''/t/x.zip'']\<rparr>)
   \<and> downloadFile sim_empty_location ''u'' ''/t/x.zip'' fresh =
     Some (Resolved (),
           \<lparr>disk = [(''/t/x.zip'', Some ''B''), (''/t'', None), (''/p'', None)],
            events = [HttpsGet ''u'', CreateWriteStream ''/t/x.zip'']\<rparr>)"
  by (simp add: sim_status_300_def sim_empty_location_def sim_defs model_defs)

text \<open>
  C3 (amended). For every response whose status code lies strictly between 300 and 400
  and which carries a non-empty \<^verbatim>\<open>Location\<close> header, \<open>downloadFile\<close>, not finding the
  target on disk, calls itself on the \<^verbatim>\<open>Location\<close> target with the same target file:
  what the call does to the disk and the outside world is its own request followed by
  exactly what the nested call does, and it resolves exactly when the nested call
  resolves.
\<close>

theorem downloadFile_follows_location:
  assumes "\<not> existsSync P (disk w) targetFile"
    and "httpsGet P url = Response (Some code) statusMessage (Some loc) content"
    and "300 < code" "code < 400" "loc \<noteq> []"
  shows "map_option snd (downloadFile P url targetFile w) =
           map_option snd (downloadFile P loc targetFile (emit (HttpsGet url) w))
         \<and> (downloadFile P url targetFile w = Some (Resolved (), w')
              \<longleftrightarrow> downloadFile P loc targetFile (emit (HttpsGet url) w) = Some (Resolved (), w'))"
proof -
  have "downloadFile P url targetFile w =
          Option.bind (downloadFile P loc targetFile (emit (HttpsGet url) w))
            (\<lambda>(r, w'). Some (case r of Resolved u \<Rightarrow> Resolved ()
                                  | Rejected err \<Rightarrow> Uncaught err
                                  | Uncaught err \<Rightarrow> Uncaught err, w'))"
    using assms by (subst downloadFile.simps) simp
  then show ?thesis
    by (cases "downloadFile P loc targetFile (emit (HttpsGet url) w)")
       (auto split: promise.splits)
qed

theorem downloadFile_follows_location_witness:
  "\<not> existsSync sim_moved (disk fresh) ''/t/x.zip''
   \<and> httpsGet sim_moved ''u'' = Response (Some 301) ''Moved Permanently'' (Some ''v'') []
   \<and> downloadFile sim_moved ''v'' ''/t/x.zip'' (emit (HttpsGet ''u'') fresh) =
       Some (Resolved (),
             \<lparr>disk = [(''/t/x.zip'', Some ''Z''), (''/t'', None), (''/p'', None)],
              events = [HttpsGet ''u'', HttpsGet ''v'', CreateWriteStream ''/t/x.zip'']\<rparr>)
   \<and> downloadFile sim_moved ''u'' ''/t/x.zip'' fresh =
       Some (Resolved (),
             \<lparr>disk = [(''/t/x.zip'', Some ''Z''), (''/t'', None), (''/p'', None)],
              events = [HttpsGet ''u'', HttpsGet ''v'', CreateWriteStream ''/t/x.zip'']\<rparr>)"
proof -
  have a: "\<not> existsSync sim_moved (disk fresh) ''/t/x.zip''"
    by (simp add: sim_moved_def sim_defs)
  have b: "httpsGet sim_moved ''u'' = Response (Some 301) ''Moved Permanently'' (Some ''v'') []"
    by (simp add: sim_moved_def sim_defs)
  have c: "downloadFile sim_moved ''v'' ''/t/x.zip'' (emit (HttpsGet ''u'') fresh) =
       Some (Resolved (),
             \<lparr>disk = [(''/t/x.zip'', Some ''Z''), (''/t'', None), (''/p'', None)],
              events = [HttpsGet ''u'', HttpsGet ''v'', CreateWriteStream ''/t/x.zip'']\<rparr>)"
    by (simp add: sim_moved_def sim_defs model_defs)
  from downloadFile_follows_location [OF a b] a b c show ?thesis by simp
qed

text \<open>
  C4 as stated fails: there is no redirect counter. A chain of eleven redirects is
  followed to its end and the fetch succeeds with twelve requests.
\<close>

theorem downloadFile_eleven_redirects_followed:
  "downloadFile sim_eleven_redirects ''u'' ''/t/x.zip'' fresh =
     Some (Resolved (),
           \<lparr>disk = [(''/t/x.zip'', Some ''Z''), (''/t'', None), (''/p'', None)],
            events = [HttpsGet ''u'', HttpsGet ''u1'', HttpsGet ''u2'', HttpsGet ''u3'',
                      HttpsGet ''u4'', HttpsGet ''u5'', HttpsGet ''u6'', HttpsGet ''u7'',
                      HttpsGet ''u8'', HttpsGet ''u9'', HttpsGet ''u10'', HttpsGet ''u11'',
                      CreateWriteStream ''/t/x.zip'']\<rparr>)"
  by (simp add: sim_eleven_redirects_def sim_defs model_defs)

lemma map_upt_shift: "f 0 # map (\<lambda>k. f (Suc k)) [0..<n] = map f [0..<n] @ [f n]"
  by (induction n) simp_all

text \<open>
  C4 (amended). \<open>downloadFile\<close> imposes no maximum redirect count: for every \<open>n\<close>, a chain
  of \<open>n\<close> redirect responses \<open>u 0\<close>, ..., \<open>u (n - 1)\<close> that ends in a 200 response at \<open>u n\<close> is
  followed to its end, with \<open>n + 1\<close> requests, and when the body of the last response is
  written to the target without a stream error the fetch resolves.
\<close>

theorem downloadFile_follows_every_chain:
  assumes "\<not> existsSync P (disk w) targetFile"
    and "\<forall>k<n. \<exists>code msg content.
            httpsGet P (u k) = Response (Some code) msg (Some (u (Suc k))) content
            \<and> 300 < code \<and> code < 400 \<and> u (Suc k) \<noteq> []"
    and "httpsGet P (u n) = Response (Some 200) statusMessage loc content"
    and "pipeToFile P (disk w) targetFile content = (None, d)"
  shows "downloadFile P (u 0) targetFile w =
           Some (Resolved (),
                 \<lparr>disk = d,
                  events = events w @ map (\<lambda>k. HttpsGet (u k)) [0..<Suc n]
                             @ [CreateWriteStream targetFile]\<rparr>)"
  using assms
proof (induction n arbitrary: u w)
  case 0
  then show ?case
    by (subst downloadFile.simps) (simp add: emit_def)
next
  case (Suc n)
  from Suc.prems(2) obtain code msg c where
    first: "httpsGet P (u 0) = Response (Some code) msg (Some (u (Suc 0))) c"
      "300 < code" "code < 400" "u (Suc 0) \<noteq> []"
    by (metis zero_less_Suc)
  have rest: "\<forall>k<n. \<exists>code msg content.
            httpsGet P (u (Suc k)) = Response (Some code) msg (Some (u (Suc (Suc k)))) content
            \<and> 300 < code \<and> code < 400 \<and> u (Suc (Suc k)) \<noteq> []"
    using Suc.prems(2) by auto
  have absent: "\<not> existsSync P (disk (emit (HttpsGet (u 0)) w)) targetFile"
    using Suc.prems(1) by simp
  have written: "pipeToFile P (disk (emit (HttpsGet (u 0)) w)) targetFile content = (None, d)"
    using Suc.prems(4) by simp
  have "downloadFile P (u (Suc 0)) targetFile (emit (HttpsGet (u 0)) w) =
          Some (Resolved (),
                \<lparr>disk = d,
                 events = (events w @ [HttpsGet (u 0)])
                            @ map (\<lambda>k. HttpsGet (u (Suc k))) [0..<Suc n]
                            @ [CreateWriteStream targetFile]\<rparr>)"
    using Suc.IH [of "emit (HttpsGet (u 0)) w" "\<lambda>k. u (Suc k)", OF absent rest _ written]
      Suc.prems(3)
    by simp
  then show ?case
    using first Suc.prems(1)
    by (subst downloadFile.simps)
       (simp add: map_upt_shift [of "\<lambda>k. HttpsGet (u k)" n])
qed

theorem downloadFile_follows_every_chain_witness:
  "\<not> existsSync sim_moved (disk fresh) ''/t/x.zip''
   \<and> httpsGet sim_moved ''u'' = Response (Some 301) ''Moved Permanently'' (Some ''v'') []
   \<and> httpsGet sim_moved ''v'' = Response (Some 200) ''OK'' None ''Z''
   \<and> pipeToFile sim_moved (disk fresh) ''/t/x.zip'' ''Z''
       = (None, [(''/t/x.zip'', Some ''Z''), (''/t'', None), (''/p'', None)])
   \<and> downloadFile sim_moved ''u'' ''/t/x.zip'' fresh =
       Some (Resolved (),
             \<lparr>disk = [(''/t/x.zip'', Some ''Z''), (''/t'', None), (''/p'', None)],
              events = [HttpsGet ''u'', HttpsGet ''v'', CreateWriteStream ''/t/x.zip'']\<rparr>)"
proof -
  let ?u = "\<lambda>k::nat. if k = 0 then ''u'' else ''v''"
  have a: "\<not> existsSync sim_moved (disk fresh) ''/t/x.zip''"
    by (simp add: sim_moved_def sim_defs)
  have b: "\<forall>k<Suc 0. \<exists>code msg content.
            httpsGet sim_moved (?u k) = Response (Some code) msg (Some (?u (Suc k))) content
            \<and> 300 < code \<and> code < 400 \<and> ?u (Suc k) \<noteq> []"
    by (simp add: sim_moved_def sim_defs)
  have c: "httpsGet sim_moved (?u (Suc 0)) = Response (Some 200) ''OK'' None ''Z''"
    by (simp add: sim_moved_def sim_defs)
  have d: "pipeToFile sim_moved (disk fresh) ''/t/x.zip'' ''Z''
       = (None, [(''/t/x.zip'', Some ''Z''), (''/t'', None), (''/p'', None)])"
    by (simp add: sim_moved_def sim_defs)
  from downloadFile_follows_every_chain [of sim_moved fresh "''/t/x.zip''" "Suc 0" ?u, OF a b c d]
    d
  show ?thesis
    by (simp add: sim_moved_def sim_defs)
qed

text \<open>
  Nor is there any loop protection: on a URL that redirects to itself the recursion does
  not end.
\<close>

lemma downloadFile_cycle_never_returns_aux:
  fixes P :: "'fs platform"
  assumes cycle: "httpsGet P url = Response (Some code) msg (Some url) content"
      "300 < code" "code < 400" "url \<noteq> []"
    and run: "downloadFile P' url' targetFile w = Some y"
  shows "\<not> (P' = P \<and> url' = url \<and> \<not> existsSync P (disk w) targetFile)"
proof -
  define Q :: "(('fs platform \<times> string) \<times> string) \<times> 'fs world \<Rightarrow> unit promise \<times> 'fs world \<Rightarrow> bool"
    where "Q = (\<lambda>x y. \<not> (fst (fst (fst x)) = P \<and> snd (fst (fst x)) = url \<and>
                            \<not> existsSync P (disk (snd x)) (snd (fst x))))"
  have "Q (((P', url'), targetFile), w) y"
  proof (rule downloadFile.raw_induct [where Pa = Q, OF _ run], goal_cases)
    case (1 f P' url' t' w' y')
    show ?case
    proof (rule ccontr)
      assume "\<not> Q (((P', url'), t'), w') y'"
      then have P': "P' = P" and url': "url' = url" and absent: "\<not> existsSync P (disk w') t'"
        by (simp_all add: Q_def)
      with 1(2) cycle obtain y'' where "f P url t' (emit (HttpsGet url) w') = Some y''"
        by (auto simp: bind_eq_Some_conv)
      from 1(1) [OF this] absent show False by (simp add: Q_def)
    qed
  qed
  then show ?thesis by (simp add: Q_def)
qed

lemma downloadFile_cycle_never_returns:
  assumes "httpsGet P url = Response (Some code) msg (Some url) content"
    and "300 < code" "code < 400" "url \<noteq> []"
    and "\<not> existsSync P (disk w) targetFile"
  shows "downloadFile P url targetFile w = None"
proof (cases "downloadFile P url targetFile w")
  case None
  then show ?thesis .
next
  case (Some y)
  from downloadFile_cycle_never_returns_aux [OF assms(1-4) Some] assms(5) show ?thesis by simp
qed

text \<open>
  Two ways in which a fetch ends with an error that nothing handles: the target of a
  redirect answers 404, so the nested call rejects inside the response callback; and the
  target file lies in a directory that does not exist, so the write stream emits
  \<^verbatim>\<open>error\<close> and never \<^verbatim>\<open>finish\<close>.
\<close>

lemma downloadFile_redirect_to_not_found:
  "downloadFile sim_moved_to_nothing ''u'' ''/t/x.zip'' fresh =
     Some (Uncaught (Error ''new Error Error: Not Found''),
           \<lparr>disk = [(''/t'', None), (''/p'', None)],
            events = [HttpsGet ''u'', HttpsGet ''v'']\<rparr>)"
  by (simp add: sim_moved_to_nothing_def sim_defs model_defs)

lemma downloadFile_missing_directory:
  "downloadFile sim_single_root ''u'' ''/nowhere/x.zip'' fresh =
     Some (Uncaught (Error ''ENOENT: no such file or directory, open''),
           \<lparr>disk = [(''/t'', None), (''/p'', None)],
            events = [HttpsGet ''u'', CreateWriteStream ''/nowhere/x.zip'']\<rparr>)"
  by (simp add: sim_single_root_def sim_defs model_defs)

section \<open>Transport: the second call\<close>









section \<open>The installer: errors\<close>

text \<open>
  The \<^verbatim>\<open>catch\<close> clause of \<open>downloadPackage\<close> turns every rejection into a normal return,
  so \<open>install\<close> never rejects, and after any error in the \<^verbatim>\<open>try\<close> block it prints the
  error and then its message of success.
\<close>

lemma install_never_rejects: "install P this w \<noteq> Some (Rejected err, w')"
  by (auto simp: install_def downloadPackage_def await_def Let_def
           split: option.splits prod.splits promise.splits)

lemma install_after_error:
  assumes "packageUrl = (if source (pkgInfo this) \<noteq> None \<and> source (pkgInfo this) \<noteq> Some []
                         then the (source (pkgInfo this))
                         else getDownloadUrl P (name (pkgInfo this)) (version (pkgInfo this))
                                (packageType this))"
    and "downloadPackage_try P this packageUrl w = Some (Rejected err, w1)"
  shows "install P this w =
           Some (Resolved (),
                 w1\<lparr>events := events w1 @
                    [ConsoleError (''Error downloading package '' @ name (pkgInfo this) @ '': ''
                                    @ render err),
                     ConsoleLog (packageType this @ '' '' @ name (pkgInfo this)
                                  @ '' installed successfully.'')]\<rparr>)"
  using assms by (simp add: install_def downloadPackage_def await_def emit_def)

text \<open>
  C1. An error of the fetch, the extraction or the rename should be the outcome of the
  package's installation. When the server answers 404, \<open>install\<close> prints the error, then
  \<^verbatim>\<open>plugin x installed successfully.\<close>, and resolves.
\<close>

theorem install_after_not_found_reports_success:
  "install sim_not_found plugin_x fresh =
     Some (Resolved (),
           \<lparr>disk = [(''/t'', None), (''/p'', None)],
            events = [ConsoleLog ''Downloading u to /t/x.zip (source u)'',
                      HttpsGet ''u'',
                      ConsoleError ''Error downloading package x: Error: new Error Error: Not Found'',
                      ConsoleLog ''plugin x installed successfully.'']\<rparr>)"
  by (simp add: sim_not_found_def sim_defs model_defs)

section \<open>The installer: build steps\<close>

text \<open>\<open>installComposer\<close> checks for no manifest: it always starts both commands.\<close>

lemma installComposer_events:
  "events (installComposer P repoPath w) =
     events w @ [ConsoleLog ''Found composer.json'',
                 Exec ''composer install --no-dev'' (Some repoPath),
                 Exec ''composer dumpautoload -o'' (Some repoPath)]"
  by (simp add: installComposer_def Let_def)

text \<open>
  C6. The composer steps should run only if the placed directory holds a
  \<^verbatim>\<open>composer.json\<close>. The archive of \<open>sim_single_root\<close> holds the files \<open>a/f\<close> and \<open>a/g/h\<close>
  and no manifest at all; the installation prints \<^verbatim>\<open>Found composer.json\<close> and starts
  \<^verbatim>\<open>composer install\<close> and \<^verbatim>\<open>composer dumpautoload\<close> in the placed directory.
\<close>

theorem install_runs_composer_without_manifest:
  "install sim_single_root plugin_x fresh =
     Some (Resolved (),
           \<lparr>disk = [(''/p/x/g/h'', Some ''2''), (''/p/x/g'', None), (''/p/x'', None),
                    (''/p/x/f'', Some ''1''), (''/p/x'', None),
                    (''/t/x.zip'', Some ''Z''), (''/t'', None), (''/p'', None)],
            events = [ConsoleLog ''Downloading u to /t/x.zip (source u)'',
                      HttpsGet ''u'', CreateWriteStream ''/t/x.zip'',
                      ConsoleLog ''u download completed!'', Extract ''/t/x.zip'' ''/t'',
                      ConsoleLog ''Extracted to undefined'',
                      RenameSync ''/t/a'' ''/p/x'',
                      ConsoleLog ''x installed successfully in u'',
                      ConsoleLog ''Found composer.json'',
                      Exec ''composer install --no-dev'' (Some ''/p/x''),
                      Exec ''composer dumpautoload -o'' (Some ''/p/x''),
                      ConsoleLog ''plugin x installed successfully.'']\<rparr>)"
  by (simp add: sim_single_root_def sim_defs model_defs)

text \<open>
  The package manager's command. Once the package is placed (cloned, or downloaded,
  extracted and renamed into the destination), an npm command that exits non-zero does
  not undo or abort the installation: \<open>install\<close> resolves, the disk is the one the command
  left (nothing is removed or moved afterwards), and the failure is printed.
\<close>

lemma install_after_npm_failure:
  assumes url: "packageUrl =
                  (if source (pkgInfo this) \<noteq> None \<and> source (pkgInfo this) \<noteq> Some []
                   then the (source (pkgInfo this))
                   else getDownloadUrl P (name (pkgInfo this)) (version (pkgInfo this))
                          (packageType this))"
    and nonempty: "packageUrl \<noteq> []"
    and dst: "pkgFolder = pathJoin P (this_destFolder this) (name (pkgInfo this))"
    and absent: "\<not> existsSync P (disk w) pkgFolder"
    and acquired:
      "(last (split_on CHR ''.'' packageUrl) = ''git''
          \<and> (\<exists>n. cloneRepo P this packageUrl w = Some (Resolved n, w1)))
       \<or> (last (split_on CHR ''.'' packageUrl) \<noteq> ''git''
          \<and> (\<exists>extractedPath w0.
                execDownload P this (name (pkgInfo this) @ ''.zip'') packageUrl w
                  = Some (Resolved extractedPath, w0)
                \<and> renameFolder P (pathJoin P (this_tempDir this) extractedPath) pkgFolder w0
                  = Some (Resolved (), w1)))"
    and manifest: "existsSync P (disk w1) (pathJoin P pkgFolder ''package.json'')"
      "readFileSync P (disk w1) (pathJoin P pkgFolder ''package.json'') = Inr text"
      "packageName P text = Inr pkgName"
    and cmd: "command = (if existsSync P (disk w1) (pathJoin P pkgFolder ''package-lock.json'')
                         then ''npm ci && npm run build'' else ''npm i && npm run build'')"
    and fails: "exec P (disk w1) command (Some pkgFolder) = (Some err, d)"
  shows "install P this w =
           Some (Resolved (),
                 \<lparr>disk = d,
                  events = events w1 @
                    [ConsoleLog (name (pkgInfo this) @ '' installed successfully in '' @ packageUrl),
                     ConsoleLog (''Installing and building '' @ pkgName @ '' from local directory...''),
                     Exec command (Some pkgFolder),
                     ConsoleError (''Error downloading package '' @ name (pkgInfo this) @ '': ''
                                    @ render err),
                     ConsoleLog (packageType this @ '' '' @ name (pkgInfo this)
                                  @ '' installed successfully.'')]\<rparr>)"
proof -
  let ?w2 = "emit (ConsoleLog (name (pkgInfo this) @ '' installed successfully in '' @ packageUrl)) w1"
  have acquisition:
    "(if last (split_on CHR ''.'' packageUrl) = ''git'' then
        await (cloneRepo P this packageUrl w) (\<lambda>_ w1. Some (Resolved (), w1))
      else
        await (execDownload P this (name (pkgInfo this) @ ''.zip'') packageUrl w)
          (\<lambda>extractedPath w1.
             renameFolder P (pathJoin P (this_tempDir this) extractedPath) pkgFolder w1))
     = Some (Resolved (), w1)"
    using acquired by (auto simp: await_def)
  have npm: "installNpmPackages P pkgFolder ?w2 =
               Some (Rejected err,
                     \<lparr>disk = d,
                      events = events w1 @
                        [ConsoleLog (name (pkgInfo this) @ '' installed successfully in '' @ packageUrl),
                         ConsoleLog (''Installing and building '' @ pkgName @ '' from local directory...''),
                         Exec command (Some pkgFolder)]\<rparr>)"
    using manifest cmd fails by (simp add: installNpmPackages_def Let_def emit_def)
  have "downloadPackage_try P this packageUrl w =
               Some (Rejected err,
                     \<lparr>disk = d,
                      events = events w1 @
                        [ConsoleLog (name (pkgInfo this) @ '' installed successfully in '' @ packageUrl),
                         ConsoleLog (''Installing and building '' @ pkgName @ '' from local directory...''),
                         Exec command (Some pkgFolder)]\<rparr>)"
    unfolding downloadPackage_try_def Let_def dst [symmetric]
    using absent nonempty acquisition npm by (simp add: await_def)
  from install_after_error [OF url this] show ?thesis
    by simp
qed

lemma install_after_npm_failure_example:
  "execDownload sim_build_fails plugin_x ''x.zip'' ''u'' fresh = Some (Resolved ''a'', unpacked_with_manifest)
   \<and> renameFolder sim_build_fails ''/t/a'' ''/p/x'' unpacked_with_manifest = Some (Resolved (), placed_with_manifest)
   \<and> exec sim_build_fails (disk placed_with_manifest) ''npm i && npm run build'' (Some ''/p/x'')
       = (Some (Error ''Command failed: npm i && npm run build''), disk placed_with_manifest)
   \<and> install sim_build_fails plugin_x fresh =
       Some (Resolved (),
             \<lparr>disk = disk placed_with_manifest,
              events = events placed_with_manifest @
                [ConsoleLog ''x installed successfully in u'',
                 ConsoleLog ''Installing and building n from local directory...'',
                 Exec ''npm i && npm run build'' (Some ''/p/x''),
                 ConsoleError ''Error downloading package x: Error: Command failed: npm i && npm run build'',
                 ConsoleLog ''plugin x installed successfully.'']\<rparr>)
   \<and> existsSync sim_build_fails (disk placed_with_manifest) ''/p/x''"
proof -
  have url: "''u'' = (if source (pkgInfo plugin_x) \<noteq> None \<and> source (pkgInfo plugin_x) \<noteq> Some []
                   then the (source (pkgInfo plugin_x))
                   else getDownloadUrl sim_build_fails (name (pkgInfo plugin_x))
                          (version (pkgInfo plugin_x)) (packageType plugin_x))"
    by (simp add: sim_defs model_defs)
  have nonempty: "''u'' \<noteq> []" by simp
  have dst: "''/p/x'' = pathJoin sim_build_fails (this_destFolder plugin_x) (name (pkgInfo plugin_x))"
    by (simp add: sim_build_fails_def sim_defs model_defs)
  have absent: "\<not> existsSync sim_build_fails (disk fresh) ''/p/x''"
    by (simp add: sim_build_fails_def sim_defs)
  have dl: "execDownload sim_build_fails plugin_x ''x.zip'' ''u'' fresh = Some (Resolved ''a'', unpacked_with_manifest)"
    by (simp add: sim_build_fails_def unpacked_with_manifest_def sim_defs model_defs)
  have mv: "renameFolder sim_build_fails ''/t/a'' ''/p/x'' unpacked_with_manifest = Some (Resolved (), placed_with_manifest)"
    by (simp add: sim_build_fails_def unpacked_with_manifest_def placed_with_manifest_def sim_defs model_defs)
  have acq:
      "(last (split_on CHR ''.'' ''u'') = ''git''
          \<and> (\<exists>n. cloneRepo sim_build_fails plugin_x ''u'' fresh = Some (Resolved n, placed_with_manifest)))
       \<or> (last (split_on CHR ''.'' ''u'') \<noteq> ''git''
          \<and> (\<exists>extractedPath w0.
                execDownload sim_build_fails plugin_x (name (pkgInfo plugin_x) @ ''.zip'') ''u'' fresh
                  = Some (Resolved extractedPath, w0)
                \<and> renameFolder sim_build_fails
                    (pathJoin sim_build_fails (this_tempDir plugin_x) extractedPath) ''/p/x'' w0
                  = Some (Resolved (), placed_with_manifest)))"
  proof -
    have "name (pkgInfo plugin_x) @ ''.zip'' = ''x.zip''"
        "pathJoin sim_build_fails (this_tempDir plugin_x) ''a'' = ''/t/a''"
      by (simp_all add: sim_build_fails_def sim_defs model_defs)
    with dl mv show ?thesis by auto
  qed
  have manifest: "existsSync sim_build_fails (disk placed_with_manifest) (pathJoin sim_build_fails ''/p/x'' ''package.json'')"
      "readFileSync sim_build_fails (disk placed_with_manifest) (pathJoin sim_build_fails ''/p/x'' ''package.json'') = Inr ''J''"
      "packageName sim_build_fails ''J'' = Inr ''n''"
    by (simp_all add: sim_build_fails_def placed_with_manifest_def sim_defs)
  have cmd: "''npm i && npm run build'' =
               (if existsSync sim_build_fails (disk placed_with_manifest) (pathJoin sim_build_fails ''/p/x'' ''package-lock.json'')
                then ''npm ci && npm run build'' else ''npm i && npm run build'')"
    by (simp add: sim_build_fails_def placed_with_manifest_def sim_defs)
  have fails: "exec sim_build_fails (disk placed_with_manifest) ''npm i && npm run build'' (Some ''/p/x'')
       = (Some (Error ''Command failed: npm i && npm run build''), disk placed_with_manifest)"
    by (simp add: sim_build_fails_def sim_defs)
  have there: "existsSync sim_build_fails (disk placed_with_manifest) ''/p/x''"
    by (simp add: sim_build_fails_def placed_with_manifest_def sim_defs)
  have names: "name (pkgInfo plugin_x) = ''x''" "packageType plugin_x = ''plugin''"
    by (simp_all add: sim_defs model_defs)
  from install_after_npm_failure [OF url nonempty dst absent acq manifest cmd fails]
    dl mv fails there names
  show ?thesis by simp
qed

text \<open>
  C9. A build-tool subprocess that exits non-zero should leave the package placed and
  be reported. The package of \<open>sim_composer_fails\<close> is placed with its \<^verbatim>\<open>composer.json\<close>,
  and both composer commands fail. \<open>install\<close> resolves and the destination is on disk,
  but the failure is reported nowhere: the commands are started with no callback, no
  error is printed, and the only messages that follow are those of success.
\<close>

theorem install_composer_failure_not_reported:
  "exec sim_composer_fails
      [(''/p/x/f'', Some ''1''), (''/p/x'', None), (''/p/x/composer.json'', Some ''C''),
       (''/p/x'', None), (''/t/x.zip'', Some ''Z''), (''/t'', None), (''/p'', None)]
      ''composer install --no-dev'' (Some ''/p/x'')
     = (Some (Error ''Command failed: composer install --no-dev''),
        [(''/p/x/f'', Some ''1''), (''/p/x'', None), (''/p/x/composer.json'', Some ''C''),
         (''/p/x'', None), (''/t/x.zip'', Some ''Z''), (''/t'', None), (''/p'', None)])
   \<and> install sim_composer_fails plugin_x fresh =
       Some (Resolved (),
             \<lparr>disk = [(''/p/x/f'', Some ''1''), (''/p/x'', None),
                      (''/p/x/composer.json'', Some ''C''), (''/p/x'', None),
                      (''/t/x.zip'', Some ''Z''), (''/t'', None), (''/p'', None)],
              events = [ConsoleLog ''Downloading u to /t/x.zip (source u)'',
                        HttpsGet ''u'', CreateWriteStream ''/t/x.zip'',
                        ConsoleLog ''u download completed!'', Extract ''/t/x.zip'' ''/t'',
                        ConsoleLog ''Extracted to undefined'',
                        RenameSync ''/t/a'' ''/p/x'',
                        ConsoleLog ''x installed successfully in u'',
                        ConsoleLog ''Found composer.json'',
                        Exec ''composer install --no-dev'' (Some ''/p/x''),
                        Exec ''composer dumpautoload -o'' (Some ''/p/x''),
                        ConsoleLog ''plugin x installed successfully.'']\<rparr>)"
  by (simp add: sim_composer_fails_def sim_defs model_defs)

section \<open>The installer: placement\<close>

text \<open>
  C5. An empty common root should fail the package with no rename. Nothing tests the
  extracted path: with an archive whose two entries \<open>a/f\<close> and \<open>b/h\<close> share no top segment
  the common root is empty, \<^verbatim>\<open>path.join(tempDir, "")\<close> is the staging directory, and the
  rename moves the whole staging directory, the downloaded archive included, to the
  destination. No error is printed and the build steps follow.
\<close>

theorem downloadPackage_two_roots_moves_staging:
  "downloadPackage sim_two_roots plugin_x ''u'' fresh =
     Some (Resolved (),
           \<lparr>disk = [(''/p/x/b/h'', Some ''2''), (''/p/x/b'', None),
                    (''/p/x/a/f'', Some ''1''), (''/p/x/a'', None),
                    (''/p/x/x.zip'', Some ''Z''), (''/p/x'', None), (''/p'', None)],
            events = [ConsoleLog ''Downloading u to /t/x.zip (source u)'',
                      HttpsGet ''u'', CreateWriteStream ''/t/x.zip'',
                      ConsoleLog ''u download completed!'', Extract ''/t/x.zip'' ''/t'',
                      ConsoleLog ''Extracted to undefined'', RenameSync ''/t'' ''/p/x'',
                      ConsoleLog ''x installed successfully in u'',
                      ConsoleLog ''Found composer.json'',
                      Exec ''composer install --no-dev'' (Some ''/p/x''),
                      Exec ''composer dumpautoload -o'' (Some ''/p/x'')]\<rparr>)"
  by (simp add: sim_two_roots_def sim_defs model_defs)

section \<open>The installer: an existing destination\<close>

text \<open>
  C7. When the destination folder joined with the name exists, as it does after an
  installation that placed the package, \<open>install\<close> resolves, leaves the disk as it is and
  performs no clone, download, extraction, rename or build step: it only prints two
  messages. Calling \<open>install\<close> again therefore leaves the disk in the state the first
  call left.
\<close>

theorem install_skips_existing_destination:
  assumes "existsSync P (disk w) (pathJoin P (this_destFolder this) (name (pkgInfo this)))"
  shows "install P this w =
           Some (Resolved (),
                 w\<lparr>events := events w @
                    [ConsoleLog (''destination folder ''
                                  @ pathJoin P (this_destFolder this) (name (pkgInfo this))
                                  @ '' already exists. Skipping download.''),
                     ConsoleLog (packageType this @ '' '' @ name (pkgInfo this)
                                  @ '' installed successfully.'')]\<rparr>)"
  using assms
  by (simp add: install_def downloadPackage_def downloadPackage_try_def await_def emit_def Let_def)

theorem install_skips_existing_destination_witness:
  "install sim_single_root plugin_x fresh = Some (Resolved (), installed)
   \<and> existsSync sim_single_root (disk installed)
        (pathJoin sim_single_root (this_destFolder plugin_x) (name (pkgInfo plugin_x)))
   \<and> install sim_single_root plugin_x installed =
       Some (Resolved (),
             installed\<lparr>events := events installed @
                [ConsoleLog ''destination folder /p/x already exists. Skipping download.'',
                 ConsoleLog ''plugin x installed successfully.'']\<rparr>)"
proof -
  have a: "install sim_single_root plugin_x fresh = Some (Resolved (), installed)"
    by (simp add: sim_single_root_def installed_def sim_defs model_defs)
  have b: "existsSync sim_single_root (disk installed)
        (pathJoin sim_single_root (this_destFolder plugin_x) (name (pkgInfo plugin_x)))"
    by (simp add: sim_single_root_def installed_def sim_defs model_defs)
  have c: "pathJoin sim_single_root (this_destFolder plugin_x) (name (pkgInfo plugin_x)) = ''/p/x''"
      "packageType plugin_x = ''plugin''" "name (pkgInfo plugin_x) = ''x''"
    by (simp_all add: sim_single_root_def sim_defs model_defs)
  from install_skips_existing_destination [OF b] a b c show ?thesis
    by simp
qed

end
